theory Spec2Isabelle
  imports Complex_Main
begin

section \<open>Python values\<close>

text \<open>
  A Python \<open>str\<close> is a sequence of Unicode code points; \<open>len\<close> and slicing count code
  points. A text is therefore a list of code points (natural numbers), not a list of
  8-bit characters. \<open>lit\<close> turns an ASCII literal of the source into such a text.
\<close>

type_synonym str = "nat list"

definition lit :: "string \<Rightarrow> str" where
  "lit s = map of_char s"

text \<open>
  A Python \<open>float\<close> is modelled by the real number it denotes, and a literal such as
  \<open>0.8\<close> by the real \<open>8/10\<close>. \<open>round(x, ndigits)\<close> rounds to the nearest multiple of
  \<open>10 ^ -ndigits\<close>, a tie going to the even multiple.
\<close>

definition round_half_even :: "real \<Rightarrow> int" where
  "round_half_even x =
     (let f = \<lfloor>x\<rfloor>; d = x - of_int f
      in if d < 1 / 2 then f else if 1 / 2 < d then f + 1 else if even f then f else f + 1)"

definition py_round :: "real \<Rightarrow> nat \<Rightarrow> real" where
  "py_round x ndigits = of_int (round_half_even (x * 10 ^ ndigits)) / 10 ^ ndigits"

text \<open>The value the source's four dictionaries of \<open>get_model_info\<close> are made of.\<close>

datatype json = JStr str | JInt int | JList "json list" | JObj "(str \<times> json) list"

section \<open>The capability\<close>

text \<open>
  \<open>model.encode\<close> is the third-party capability: the repository only calls it. It is a
  parameter of the model. Called on a list of texts and the normalisation flag, it either
  raises an exception \<open>e\<close> (\<open>Inl\<close> of \<open>str(e)\<close>) or returns a two-dimensional array, here
  the list of its rows. \<open>tolist\<close> of a row is the row. Nothing is assumed about how many
  rows it returns.
\<close>

type_synonym ndarray = "real list list"

record SentenceTransformer =
  encode :: "str list \<Rightarrow> bool \<Rightarrow> str + ndarray"

text \<open>
  The global \<open>model\<close> is \<open>None\<close> or the loaded capability: a \<open>SentenceTransformer option\<close>.
  It is \<open>None\<close> when the module is loaded; \<open>lifespan\<close> sets it on startup and clears it
  on shutdown. The source tests it with
  \<open>if not model\<close>; a loaded capability is a module container with at least one module,
  so it is truthy, and \<open>not model\<close> holds exactly when the global is \<open>None\<close>.
  The handlers read the global; in the model it is their first argument \<open>st\<close>.
\<close>

type_synonym ServiceState = "SentenceTransformer option"

definition initial_state :: ServiceState where
  "initial_state = None"

definition startup :: "SentenceTransformer \<Rightarrow> ServiceState" where
  "startup loaded = Some loaded"

definition shutdown :: "ServiceState \<Rightarrow> ServiceState" where
  "shutdown st = None"

text \<open>One entry per call of \<open>model.encode\<close>, with its arguments, in call order.\<close>

type_synonym calls = "(str list \<times> bool) list"

section \<open>Pydantic models\<close>

record EmbedRequest =
  texts :: "str list"
  normalize' :: bool

text \<open>
  The field constraints \<open>min_items=1, max_items=100\<close> of \<open>EmbedRequest.texts\<close>: a body
  that violates them is no \<open>EmbedRequest\<close>.
\<close>

definition EmbedRequest_valid :: "EmbedRequest \<Rightarrow> bool" where
  "EmbedRequest_valid r = (1 \<le> length (texts r) \<and> length (texts r) \<le> 100)"

record EmbeddingResult =
  text' :: str
  embedding :: "real list"
  tokens :: "int option"

record EmbedResponse =
  embeddings :: "EmbeddingResult list"
  count :: int
  dimension :: int
  model :: str
  processing_time_ms :: real

record HealthResponse =
  status :: str
  model_loaded :: bool
  model_name :: str
  embedding_dimension :: int
  max_sequence_length :: int

record SimilarityResponse =
  text1 :: str
  text2 :: str
  similarity :: real
  interpretation' :: str

record HTTPException =
  status_code :: nat
  detail :: str

section \<open>Wall-clock time\<close>

text \<open>
  \<open>time.time()\<close> reads a clock that advances while the handler works. \<open>now\<close> is its
  reading when the handler has passed its guards (the first \<open>time.time()\<close>),
  \<open>encode_secs\<close> the seconds the call of \<open>model.encode\<close> takes and \<open>results_secs\<close> the
  seconds the loop that builds \<open>results\<close> takes.
\<close>

record timing =
  now :: real
  encode_secs :: real
  results_secs :: real

section \<open>Endpoints\<close>

definition health_check :: "ServiceState \<Rightarrow> HealthResponse" where
  "health_check st =
     \<lparr>status = (if st \<noteq> None then lit ''healthy'' else lit ''unhealthy''),
      model_loaded = (st \<noteq> None),
      model_name = lit ''sentence-transformers/all-MiniLM-L6-v2'',
      embedding_dimension = 384,
      max_sequence_length = 256\<rparr>"

text \<open>
  The label of a text in a response: \<open>text[:100] + "..." if len(text) > 100 else text\<close>.
  The source writes the expression three times (once in \<open>generate_embeddings\<close>, twice in
  \<open>compute_similarity\<close>); the model unfolds to the same expression at each place.
\<close>

abbreviation (input) label :: "str \<Rightarrow> str" where
  "label t \<equiv> (if length t > 100 then take 100 t @ lit ''...'' else t)"

definition generate_embeddings ::
  "ServiceState \<Rightarrow> timing \<Rightarrow> EmbedRequest \<Rightarrow> calls \<times> (HTTPException + EmbedResponse)" where
  "generate_embeddings st tm request =
     (case st of
        None \<Rightarrow> ([], Inl \<lparr>status_code = 503, detail = lit ''Model not loaded''\<rparr>)
      | Some m \<Rightarrow>
          if length (texts request) = 0 then
            ([], Inl \<lparr>status_code = 400, detail = lit ''No texts provided''\<rparr>)
          else if length (texts request) > 100 then
            ([], Inl \<lparr>status_code = 400, detail =
               lit ''Maximum 100 texts per request. Use batch processing for larger sets.''\<rparr>)
          else
            let start_time = now tm in
            (case encode m (texts request) (normalize' request) of
               Inl e \<Rightarrow>
                 ([(texts request, normalize' request)],
                  Inl \<lparr>status_code = 500,
                       detail = lit ''Embedding generation failed: '' @ e\<rparr>)
             | Inr embs \<Rightarrow>
                 let results =
                       map (\<lambda>(t, e). \<lparr>text' = label t, embedding = e, tokens = None\<rparr>)
                         (zip (texts request) embs);
                     processing_time =
                       ((now tm + encode_secs tm + results_secs tm) - start_time) * 1000
                 in ([(texts request, normalize' request)],
                     Inr \<lparr>embeddings = results,
                          count = int (length results),
                          dimension = 384,
                          model = lit ''sentence-transformers/all-MiniLM-L6-v2'',
                          processing_time_ms = py_round processing_time 2\<rparr>)))"

text \<open>
  \<open>get_model_info\<close>: the guard on the global, then the literal dictionary.
\<close>

definition model_info_payload :: json where
  "model_info_payload =
     JObj [
       (lit ''model_name'', JStr (lit ''sentence-transformers/all-MiniLM-L6-v2'')),
       (lit ''model_type'', JStr (lit ''Sentence Transformer'')),
       (lit ''base_model'', JStr (lit ''nreimers/MiniLM-L6-H384-uncased'')),
       (lit ''embedding_dimension'', JInt 384),
       (lit ''max_sequence_length'', JInt 256),
       (lit ''max_input_length'', JStr (lit ''~512 words'')),
       (lit ''normalization'', JStr (lit ''L2 normalization recommended'')),
       (lit ''training_data'', JObj [
          (lit ''total_pairs'', JStr (lit ''1.17 billion sentence pairs'')),
          (lit ''datasets'', JList [
             JStr (lit ''Reddit comments (726M)''),
             JStr (lit ''S2ORC citations (116M)''),
             JStr (lit ''WikiAnswers (77M)''),
             JStr (lit ''PAQ Q&A (64M)''),
             JStr (lit ''StackExchange (68M)''),
             JStr (lit ''MS MARCO (9M)''),
             JStr (lit ''and 24 more datasets'')])]),
       (lit ''use_cases'', JList [
          JStr (lit ''Semantic search''),
          JStr (lit ''Text similarity''),
          JStr (lit ''Clustering''),
          JStr (lit ''Information retrieval''),
          JStr (lit ''Duplicate detection''),
          JStr (lit ''Feature extraction'')]),
       (lit ''performance'', JObj [
          (lit ''speed'', JStr (lit ''~1000 sentences/sec on CPU'')),
          (lit ''quality'', JStr (lit ''High semantic understanding'')),
          (lit ''domain'', JStr (lit ''General purpose (not domain-specific)''))])]"

definition get_model_info :: "ServiceState \<Rightarrow> HTTPException + json" where
  "get_model_info st =
     (case st of
        None \<Rightarrow> Inl \<lparr>status_code = 503, detail = lit ''Model not loaded''\<rparr>
      | Some m \<Rightarrow> Inr model_info_payload)"

text \<open>
  \<open>embeddings[0] @ embeddings[1]\<close>: the rows of one array have the same length, and
  the product of two rows is the sum of the products of their components.
\<close>

definition dot :: "real list \<Rightarrow> real list \<Rightarrow> real" where
  "dot a b = sum_list (map (\<lambda>(x, y). x * y) (zip a b))"

text \<open>
  \<open>compute_similarity\<close>. Reading row 0 or row 1 of an array that has no such row raises
  an \<open>IndexError\<close> inside the \<open>try\<close>, with the array library's message.
\<close>

definition compute_similarity ::
  "ServiceState \<Rightarrow> str \<Rightarrow> str \<Rightarrow> calls \<times> (HTTPException + SimilarityResponse)" where
  "compute_similarity st t1 t2 =
     (case st of
        None \<Rightarrow> ([], Inl \<lparr>status_code = 503, detail = lit ''Model not loaded''\<rparr>)
      | Some m \<Rightarrow>
          (case encode m [t1, t2] True of
             Inl e \<Rightarrow>
               ([([t1, t2], True)],
                Inl \<lparr>status_code = 500,
                     detail = lit ''Similarity computation failed: '' @ e\<rparr>)
           | Inr embs \<Rightarrow>
               (case embs of
                  [] \<Rightarrow>
                    ([([t1, t2], True)],
                     Inl \<lparr>status_code = 500,
                          detail = lit ''Similarity computation failed: '' @
                            lit ''index 0 is out of bounds for axis 0 with size 0''\<rparr>)
                | [e0] \<Rightarrow>
                    ([([t1, t2], True)],
                     Inl \<lparr>status_code = 500,
                          detail = lit ''Similarity computation failed: '' @
                            lit ''index 1 is out of bounds for axis 0 with size 1''\<rparr>)
                | e0 # e1 # rest \<Rightarrow>
                    let similarity = dot e0 e1
                    in ([([t1, t2], True)],
                        Inr \<lparr>text1 = label t1,
                             text2 = label t2,
                             similarity = py_round similarity 4,
                             interpretation' =
                               (if similarity > 0.8 then lit ''Very similar''
                                else if similarity > 0.6 then lit ''Similar''
                                else if similarity > 0.4 then lit ''Somewhat similar''
                                else lit ''Not very similar'')\<rparr>))))"

section \<open>The HTTP boundary of the embed endpoint\<close>

text \<open>
  The framework parses the body of \<open>POST /api/v1/embed\<close> into an \<open>EmbedRequest\<close> before
  it calls the handler. A body that violates the field constraints is answered by the
  framework itself, with its status for a request validation error (422), and the
  handler does not run. Otherwise the handler runs; an \<open>HTTPException\<close> it raises is
  answered with its \<open>status_code\<close>, a value it returns with status 200.
\<close>

datatype 'a outcome = Rejected | Raised HTTPException | Returned 'a

fun http_status :: "'a outcome \<Rightarrow> nat" where
  "http_status Rejected = 422"
| "http_status (Raised e) = status_code e"
| "http_status (Returned r) = 200"

definition post_embed :: "ServiceState \<Rightarrow> timing \<Rightarrow> EmbedRequest \<Rightarrow> calls \<times> EmbedResponse outcome" where
  "post_embed st tm body =
     (if EmbedRequest_valid body then
        (case generate_embeddings st tm body of
           (cs, Inl e) \<Rightarrow> (cs, Raised e)
         | (cs, Inr r) \<Rightarrow> (cs, Returned r))
      else ([], Rejected))"

section \<open>Concrete inputs\<close>

text \<open>
  Capabilities, requests and timings the theorems below are run on. \<open>length_encoder\<close>
  returns one row per text, holding the number of code points of the whole text;
  \<open>fixed_rows\<close> returns the given array whatever it is asked; \<open>failing_encoder\<close> raises.
\<close>

definition length_encoder :: SentenceTransformer where
  "length_encoder = \<lparr>encode = (\<lambda>ts n. Inr (map (\<lambda>t. [real (length t)]) ts))\<rparr>"

definition fixed_rows :: "ndarray \<Rightarrow> SentenceTransformer" where
  "fixed_rows a = \<lparr>encode = (\<lambda>ts n. Inr a)\<rparr>"

definition failing_encoder :: SentenceTransformer where
  "failing_encoder = \<lparr>encode = (\<lambda>ts n. Inl (lit ''out of memory''))\<rparr>"

definition two_texts :: EmbedRequest where
  "two_texts = \<lparr>texts = [replicate 150 120, lit ''gift''], normalize' = True\<rparr>"

definition n_texts :: "nat \<Rightarrow> EmbedRequest" where
  "n_texts n = \<lparr>texts = replicate n (lit ''gift''), normalize' = True\<rparr>"

definition slow_loop :: timing where
  "slow_loop = \<lparr>now = 5, encode_secs = 0.05, results_secs = 0.001\<rparr>"

section \<open>What the handlers compute\<close>

lemma generate_embeddings_returns:
  assumes "1 \<le> length (texts r)" and "length (texts r) \<le> 100"
    and "encode m (texts r) (normalize' r) = Inr embs"
  shows "generate_embeddings (Some m) tm r =
    ([(texts r, normalize' r)],
     Inr \<lparr>embeddings =
            map (\<lambda>(t, e). \<lparr>text' = label t, embedding = e, tokens = None\<rparr>) (zip (texts r) embs),
          count = int (min (length (texts r)) (length embs)),
          dimension = 384,
          model = lit ''sentence-transformers/all-MiniLM-L6-v2'',
          processing_time_ms = py_round ((encode_secs tm + results_secs tm) * 1000) 2\<rparr>)"
  using assms by (simp add: generate_embeddings_def Let_def Suc_le_eq)

lemma generate_embeddings_success:
  assumes "generate_embeddings st tm r = (cs, Inr resp)"
  shows "\<exists>m embs. st = Some m \<and> 1 \<le> length (texts r) \<and> length (texts r) \<le> 100 \<and>
           encode m (texts r) (normalize' r) = Inr embs"
  using assms
  by (auto simp: generate_embeddings_def Let_def Suc_le_eq
      split: option.splits sum.splits if_splits)

lemma compute_similarity_two_rows:
  assumes "encode m [t1, t2] True = Inr (e0 # e1 # rest)"
  shows "compute_similarity (Some m) t1 t2 =
    ([([t1, t2], True)],
     Inr \<lparr>text1 = label t1, text2 = label t2,
          similarity = py_round (dot e0 e1) 4,
          interpretation' =
            (if dot e0 e1 > 0.8 then lit ''Very similar''
             else if dot e0 e1 > 0.6 then lit ''Similar''
             else if dot e0 e1 > 0.4 then lit ''Somewhat similar''
             else lit ''Not very similar'')\<rparr>)"
  using assms by (simp add: compute_similarity_def Let_def)

lemma compute_similarity_success:
  assumes "compute_similarity st t1 t2 = (cs, Inr resp)"
  shows "\<exists>m e0 e1 rest. st = Some m \<and> encode m [t1, t2] True = Inr (e0 # e1 # rest)"
  using assms
  by (auto simp: compute_similarity_def Let_def split: option.splits sum.splits list.splits)

section \<open>The embed endpoint on a valid request\<close>

text \<open>
  C1. A request of N texts, 1 \<open>\<le>\<close> N \<open>\<le>\<close> 100, on which the capability returns one row per
  text: the handler returns a response (status 200 at the HTTP boundary) with exactly N
  results, the i-th result holding the label of the i-th text and the i-th row, and
  \<open>count\<close> equal to N.
\<close>

theorem embed_response_positional:
  assumes "1 \<le> length (texts r)" and "length (texts r) \<le> 100"
    and "encode m (texts r) (normalize' r) = Inr embs"
    and "length embs = length (texts r)"
  shows "\<exists>resp. generate_embeddings (Some m) tm r = ([(texts r, normalize' r)], Inr resp) \<and>
    post_embed (Some m) tm r = ([(texts r, normalize' r)], Returned resp) \<and>
    length (embeddings resp) = length (texts r) \<and>
    count resp = int (length (texts r)) \<and>
    map embedding (embeddings resp) = embs \<and>
    map text' (embeddings resp) = map (\<lambda>t. label t) (texts r) \<and>
    (\<forall>i<length (texts r).
       text' (embeddings resp ! i) = label (texts r ! i) \<and>
       embedding (embeddings resp ! i) = embs ! i)"
proof -
  let ?res = "map (\<lambda>(t, e). \<lparr>text' = label t, embedding = e, tokens = None\<rparr>) (zip (texts r) embs)"
  have e: "map embedding ?res = embs"
    using assms(4) by (simp add: map_idI split_def o_def)
  have l: "map text' ?res = map (\<lambda>t. label t) (texts r)"
  proof -
    have "map text' ?res = map (\<lambda>p. label (fst p)) (zip (texts r) embs)"
      by (simp add: split_def o_def)
    also have "\<dots> = map (\<lambda>t. label t) (map fst (zip (texts r) embs))"
      by (simp add: o_def)
    also have "\<dots> = map (\<lambda>t. label t) (texts r)"
      using assms(4) by simp
    finally show ?thesis .
  qed
  have v: "EmbedRequest_valid r"
    using assms(1,2) by (simp add: EmbedRequest_valid_def)
  have i: "\<forall>i<length (texts r).
      text' (?res ! i) = label (texts r ! i) \<and> embedding (?res ! i) = embs ! i"
    using assms(4) by simp
  show ?thesis
    using generate_embeddings_returns [OF assms(1,2,3), of tm] e l v i assms(4)
    by (simp add: post_embed_def)
qed

theorem embed_response_positional_witness:
  "1 \<le> length (texts two_texts) \<and> length (texts two_texts) \<le> 100 \<and>
   encode length_encoder (texts two_texts) (normalize' two_texts) = Inr [[150], [4]] \<and>
   length [[150], [4 :: real]] = length (texts two_texts) \<and>
   (\<exists>resp. generate_embeddings (Some length_encoder) slow_loop two_texts =
        ([(texts two_texts, True)], Inr resp) \<and>
      count resp = 2 \<and>
      map embedding (embeddings resp) = [[150], [4]] \<and>
      map text' (embeddings resp) = [replicate 100 120 @ lit ''...'', lit ''gift''])"
proof -
  have h1: "1 \<le> length (texts two_texts)" and h2: "length (texts two_texts) \<le> 100"
    by (simp_all add: two_texts_def)
  have h3: "encode length_encoder (texts two_texts) (normalize' two_texts) = Inr [[150], [4]]"
    by (simp add: two_texts_def length_encoder_def lit_def)
  have h4: "length [[150], [4 :: real]] = length (texts two_texts)"
    by (simp add: two_texts_def)
  have t: "texts two_texts = [replicate 150 120, lit ''gift'']"
    and n: "normalize' two_texts = True"
    by (simp_all add: two_texts_def)
  have k: "take 100 (replicate 150 (120 :: nat)) = replicate 100 120"
    by simp
  have g: "length (lit ''gift'') = 4"
    by (simp add: lit_def)
  from embed_response_positional [OF h1 h2 h3 h4, of slow_loop]
  obtain resp where
    r: "generate_embeddings (Some length_encoder) slow_loop two_texts =
         ([(texts two_texts, normalize' two_texts)], Inr resp)"
    and c: "count resp = int (length (texts two_texts))"
    and e: "map embedding (embeddings resp) = [[150], [4]]"
    and l: "map text' (embeddings resp) = map (\<lambda>t. label t) (texts two_texts)"
    by (elim exE conjE) (rule that)
  have "map text' (embeddings resp) = [replicate 100 120 @ lit ''...'', lit ''gift'']"
    using l k g by (simp add: t)
  with r c e h1 h2 h3 h4 show ?thesis
    by (simp add: t n)
qed

section \<open>The similarity utility\<close>

text \<open>
  C3. When the capability returns (at least) two rows, the interpretation is decided by
  their product \<open>s\<close> through strict comparisons in the order 0.8, 0.6, 0.4:
  "Very similar" exactly for \<open>s > 0.8\<close>, "Similar" for \<open>0.6 < s \<le> 0.8\<close>, "Somewhat similar"
  for \<open>0.4 < s \<le> 0.6\<close>, "Not very similar" for \<open>s \<le> 0.4\<close>. A score equal to a threshold
  falls into the lower of the two buckets.
\<close>

theorem similarity_buckets:
  assumes "encode m [t1, t2] True = Inr (e0 # e1 # rest)"
  shows "\<exists>resp. compute_similarity (Some m) t1 t2 = ([([t1, t2], True)], Inr resp) \<and>
    (0.8 < dot e0 e1 \<longrightarrow> interpretation' resp = lit ''Very similar'') \<and>
    (0.6 < dot e0 e1 \<and> dot e0 e1 \<le> 0.8 \<longrightarrow> interpretation' resp = lit ''Similar'') \<and>
    (0.4 < dot e0 e1 \<and> dot e0 e1 \<le> 0.6 \<longrightarrow> interpretation' resp = lit ''Somewhat similar'') \<and>
    (dot e0 e1 \<le> 0.4 \<longrightarrow> interpretation' resp = lit ''Not very similar'')"
  by (simp add: compute_similarity_two_rows [OF assms])

theorem similarity_buckets_witness:
  "encode (fixed_rows [[1, 0], [1, 0]]) [lit ''a'', lit ''b''] True = Inr [[1, 0], [1, 0]] \<and>
   encode (fixed_rows [[1, 0], [0.8, 0.6]]) [lit ''a'', lit ''b''] True = Inr [[1, 0], [0.8, 0.6]] \<and>
   encode (fixed_rows [[1, 0], [0.6, 0.8]]) [lit ''a'', lit ''b''] True = Inr [[1, 0], [0.6, 0.8]] \<and>
   encode (fixed_rows [[1], [0.4]]) [lit ''a'', lit ''b''] True = Inr [[1], [0.4]] \<and>
   (\<exists>resp. compute_similarity (Some (fixed_rows [[1, 0], [1, 0]])) (lit ''a'') (lit ''b'') =
        ([([lit ''a'', lit ''b''], True)], Inr resp) \<and>
      interpretation' resp = lit ''Very similar'') \<and>
   (\<exists>resp. compute_similarity (Some (fixed_rows [[1, 0], [0.8, 0.6]])) (lit ''a'') (lit ''b'') =
        ([([lit ''a'', lit ''b''], True)], Inr resp) \<and>
      interpretation' resp = lit ''Similar'') \<and>
   (\<exists>resp. compute_similarity (Some (fixed_rows [[1, 0], [0.6, 0.8]])) (lit ''a'') (lit ''b'') =
        ([([lit ''a'', lit ''b''], True)], Inr resp) \<and>
      interpretation' resp = lit ''Somewhat similar'') \<and>
   (\<exists>resp. compute_similarity (Some (fixed_rows [[1], [0.4]])) (lit ''a'') (lit ''b'') =
        ([([lit ''a'', lit ''b''], True)], Inr resp) \<and>
      interpretation' resp = lit ''Not very similar'')"
proof -
  have h1: "encode (fixed_rows [[1, 0], [1, 0]]) [lit ''a'', lit ''b''] True = Inr ([1, 0] # [1, 0] # [])"
    and h2: "encode (fixed_rows [[1, 0], [0.8, 0.6]]) [lit ''a'', lit ''b''] True = Inr ([1, 0] # [0.8, 0.6] # [])"
    and h3: "encode (fixed_rows [[1, 0], [0.6, 0.8]]) [lit ''a'', lit ''b''] True = Inr ([1, 0] # [0.6, 0.8] # [])"
    and h4: "encode (fixed_rows [[1], [0.4]]) [lit ''a'', lit ''b''] True = Inr ([1] # [0.4] # [])"
    by (simp_all add: fixed_rows_def)
  have d1: "dot [1, 0] [1, 0] = 1" and d2: "dot [1, 0] [0.8, 0.6] = 0.8"
    and d3: "dot [1, 0] [0.6, 0.8] = 0.6" and d4: "dot [1] [0.4] = 0.4"
    by (simp_all add: dot_def)
  have c1: "\<exists>resp. compute_similarity (Some (fixed_rows [[1, 0], [1, 0]])) (lit ''a'') (lit ''b'') =
        ([([lit ''a'', lit ''b''], True)], Inr resp) \<and> interpretation' resp = lit ''Very similar''"
    using similarity_buckets [OF h1] unfolding d1 by auto
  have c2: "\<exists>resp. compute_similarity (Some (fixed_rows [[1, 0], [0.8, 0.6]])) (lit ''a'') (lit ''b'') =
        ([([lit ''a'', lit ''b''], True)], Inr resp) \<and> interpretation' resp = lit ''Similar''"
    using similarity_buckets [OF h2] unfolding d2 by auto
  have c3: "\<exists>resp. compute_similarity (Some (fixed_rows [[1, 0], [0.6, 0.8]])) (lit ''a'') (lit ''b'') =
        ([([lit ''a'', lit ''b''], True)], Inr resp) \<and> interpretation' resp = lit ''Somewhat similar''"
    using similarity_buckets [OF h3] unfolding d3 by auto
  have c4: "\<exists>resp. compute_similarity (Some (fixed_rows [[1], [0.4]])) (lit ''a'') (lit ''b'') =
        ([([lit ''a'', lit ''b''], True)], Inr resp) \<and> interpretation' resp = lit ''Not very similar''"
    using similarity_buckets [OF h4] unfolding d4 by auto
  from h1 h2 h3 h4 c1 c2 c3 c4 show ?thesis
    by blast
qed

text \<open>
  C10. In a successful similarity response, \<open>text1\<close> and \<open>text2\<close> are the labels of the two
  inputs: an input of more than 100 code points is returned as its first 100 code points
  followed by the three full stops of the ellipsis marker, a shorter one unchanged.
\<close>

theorem similarity_labels:
  assumes "compute_similarity st t1 t2 = (cs, Inr resp)"
  shows "(100 < length t1 \<longrightarrow> text1 resp = take 100 t1 @ lit ''...'') \<and>
         (length t1 \<le> 100 \<longrightarrow> text1 resp = t1) \<and>
         (100 < length t2 \<longrightarrow> text2 resp = take 100 t2 @ lit ''...'') \<and>
         (length t2 \<le> 100 \<longrightarrow> text2 resp = t2)"
proof -
  from compute_similarity_success [OF assms] obtain m e0 e1 rest
    where st: "st = Some m" and enc: "encode m [t1, t2] True = Inr (e0 # e1 # rest)"
    by blast
  from compute_similarity_two_rows [OF enc] assms st show ?thesis
    by auto
qed

theorem similarity_labels_witness:
  "compute_similarity (Some (fixed_rows [[1, 0], [1, 0]])) (replicate 101 120) (replicate 100 121) =
     ([([replicate 101 120, replicate 100 121], True)],
      Inr \<lparr>text1 = replicate 100 120 @ [46, 46, 46], text2 = replicate 100 121,
           similarity = 1, interpretation' = lit ''Very similar''\<rparr>) \<and>
   compute_similarity (Some (fixed_rows [[1, 0], [1, 0]])) (replicate 100 121) (replicate 101 120) =
     ([([replicate 100 121, replicate 101 120], True)],
      Inr \<lparr>text1 = replicate 100 121, text2 = replicate 100 120 @ [46, 46, 46],
           similarity = 1, interpretation' = lit ''Very similar''\<rparr>) \<and>
   100 < length (replicate 101 (120 :: nat)) \<and> length (replicate 100 (121 :: nat)) \<le> 100 \<and>
   replicate 100 120 @ [46, 46, 46] = take 100 (replicate 101 120) @ lit ''...''"
proof -
  have run1: "compute_similarity (Some (fixed_rows [[1, 0], [1, 0]]))
       (replicate 101 120) (replicate 100 121) =
     ([([replicate 101 120, replicate 100 121], True)],
      Inr \<lparr>text1 = replicate 100 120 @ [46, 46, 46], text2 = replicate 100 121,
           similarity = 1, interpretation' = lit ''Very similar''\<rparr>)"
    by (simp add: compute_similarity_def fixed_rows_def dot_def lit_def
        py_round_def round_half_even_def Let_def)
  have run2: "compute_similarity (Some (fixed_rows [[1, 0], [1, 0]]))
       (replicate 100 121) (replicate 101 120) =
     ([([replicate 100 121, replicate 101 120], True)],
      Inr \<lparr>text1 = replicate 100 121, text2 = replicate 100 120 @ [46, 46, 46],
           similarity = 1, interpretation' = lit ''Very similar''\<rparr>)"
    by (simp add: compute_similarity_def fixed_rows_def dot_def lit_def
        py_round_def round_half_even_def Let_def)
  from similarity_labels [OF run1] similarity_labels [OF run2] show ?thesis
    using run1 run2 by simp
qed

section \<open>Labels, failures and the token count\<close>

text \<open>
  C4. In the response to a valid request, the label of the i-th text is the text cut to
  its first 100 code points followed by the ellipsis marker when the text is longer than
  100 code points, and the text itself otherwise. The vector beside it is row i of what
  the capability returned for the original texts: the capability is called once, on the
  texts of the request and never on a label.
\<close>

theorem label_truncated_vector_from_full_text:
  assumes "1 \<le> length (texts r)" and "length (texts r) \<le> 100"
    and "encode m (texts r) (normalize' r) = Inr embs"
    and "i < length (texts r)" and "i < length embs"
  shows "\<exists>resp. generate_embeddings (Some m) tm r = ([(texts r, normalize' r)], Inr resp) \<and>
    i < length (embeddings resp) \<and>
    (100 < length (texts r ! i) \<longrightarrow>
       text' (embeddings resp ! i) = take 100 (texts r ! i) @ lit ''...'') \<and>
    (length (texts r ! i) \<le> 100 \<longrightarrow> text' (embeddings resp ! i) = texts r ! i) \<and>
    embedding (embeddings resp ! i) = embs ! i"
  using assms(4,5) by (simp add: generate_embeddings_returns [OF assms(1,2,3)])

theorem label_truncated_vector_from_full_text_witness:
  "1 \<le> length (texts two_texts) \<and> length (texts two_texts) \<le> 100 \<and>
   encode length_encoder (texts two_texts) (normalize' two_texts) = Inr [[150], [4]] \<and>
   100 < length (texts two_texts ! 0) \<and> length (texts two_texts ! 1) \<le> 100 \<and>
   (\<exists>resp. generate_embeddings (Some length_encoder) slow_loop two_texts =
        ([(texts two_texts, True)], Inr resp) \<and>
      text' (embeddings resp ! 0) = replicate 100 120 @ [46, 46, 46] \<and>
      embedding (embeddings resp ! 0) = [150] \<and>
      text' (embeddings resp ! 1) = lit ''gift'' \<and>
      embedding (embeddings resp ! 1) = [4])"
proof -
  have h1: "1 \<le> length (texts two_texts)" and h2: "length (texts two_texts) \<le> 100"
    by (simp_all add: two_texts_def)
  have h3: "encode length_encoder (texts two_texts) (normalize' two_texts) = Inr [[150], [4]]"
    by (simp add: two_texts_def length_encoder_def lit_def)
  have i0: "0 < length (texts two_texts)" "0 < length [[150], [4 :: real]]"
    and i1: "1 < length (texts two_texts)" "1 < length [[150], [4 :: real]]"
    by (simp_all add: two_texts_def)
  have l0: "100 < length (texts two_texts ! 0)" and l1: "length (texts two_texts ! 1) \<le> 100"
    by (simp_all add: two_texts_def lit_def)
  have t0: "take 100 (texts two_texts ! 0) @ lit ''...'' = replicate 100 120 @ [46, 46, 46]"
    and t1: "texts two_texts ! 1 = lit ''gift''" and n: "normalize' two_texts = True"
    by (simp_all add: two_texts_def lit_def)
  from label_truncated_vector_from_full_text [OF h1 h2 h3 i0, of slow_loop]
    label_truncated_vector_from_full_text [OF h1 h2 h3 i1, of slow_loop]
  have "\<exists>resp. generate_embeddings (Some length_encoder) slow_loop two_texts =
        ([(texts two_texts, True)], Inr resp) \<and>
      text' (embeddings resp ! 0) = replicate 100 120 @ [46, 46, 46] \<and>
      embedding (embeddings resp ! 0) = [150] \<and>
      text' (embeddings resp ! 1) = lit ''gift'' \<and>
      embedding (embeddings resp ! 1) = [4]"
    using l0 l1 unfolding t0 t1 n by auto
  with h1 h2 h3 l0 l1 show ?thesis
    by blast
qed

text \<open>
  C5. When the capability raises an exception \<open>e\<close> (an instance of \<open>Exception\<close>, which the
  handler's \<open>except\<close> clause catches) on a request that passed the guards, the handler
  raises an \<open>HTTPException\<close> with status 500 whose detail ends with \<open>str(e)\<close>; the
  endpoint answers 500 and returns no response object, so no result of the batch.
\<close>

theorem capability_failure_is_500:
  assumes "1 \<le> length (texts r)" and "length (texts r) \<le> 100"
    and "encode m (texts r) (normalize' r) = Inl e"
  shows "generate_embeddings (Some m) tm r =
      ([(texts r, normalize' r)],
       Inl \<lparr>status_code = 500, detail = lit ''Embedding generation failed: '' @ e\<rparr>) \<and>
    post_embed (Some m) tm r =
      ([(texts r, normalize' r)],
       Raised \<lparr>status_code = 500, detail = lit ''Embedding generation failed: '' @ e\<rparr>) \<and>
    http_status (snd (post_embed (Some m) tm r)) = 500 \<and>
    (\<forall>resp. snd (generate_embeddings (Some m) tm r) \<noteq> Inr resp)"
  using assms
  by (simp add: generate_embeddings_def post_embed_def EmbedRequest_valid_def Suc_le_eq)

theorem capability_failure_is_500_witness:
  "1 \<le> length (texts two_texts) \<and> length (texts two_texts) \<le> 100 \<and>
   encode failing_encoder (texts two_texts) (normalize' two_texts) = Inl (lit ''out of memory'') \<and>
   generate_embeddings (Some failing_encoder) slow_loop two_texts =
      ([(texts two_texts, True)],
       Inl \<lparr>status_code = 500, detail = lit ''Embedding generation failed: out of memory''\<rparr>)"
proof -
  have h1: "1 \<le> length (texts two_texts)" and h2: "length (texts two_texts) \<le> 100"
    by (simp_all add: two_texts_def)
  have h3: "encode failing_encoder (texts two_texts) (normalize' two_texts) = Inl (lit ''out of memory'')"
    by (simp add: failing_encoder_def)
  have n: "normalize' two_texts = True"
    by (simp add: two_texts_def)
  have a: "lit ''Embedding generation failed: '' @ lit ''out of memory'' =
      lit ''Embedding generation failed: out of memory''"
    by (simp add: lit_def)
  from capability_failure_is_500 [OF h1 h2 h3, of slow_loop] h1 h2 h3 show ?thesis
    unfolding a n by blast
qed

text \<open>
  C9. Every result of a successful embed request has no token count: the handler builds
  each \<open>EmbeddingResult\<close> from a label and a vector only, and the field defaults to \<open>None\<close>.
\<close>

theorem tokens_always_absent:
  assumes "generate_embeddings st tm r = (cs, Inr resp)"
  shows "\<forall>x \<in> set (embeddings resp). tokens x = None"
proof -
  from generate_embeddings_success [OF assms] obtain m embs
    where st: "st = Some m" and h: "1 \<le> length (texts r)" "length (texts r) \<le> 100"
      and enc: "encode m (texts r) (normalize' r) = Inr embs"
    by blast
  from generate_embeddings_returns [OF h enc, of tm] assms st show ?thesis
    by auto
qed

theorem tokens_always_absent_witness:
  "generate_embeddings (Some length_encoder) slow_loop two_texts =
     ([([replicate 150 120, lit ''gift''], True)],
      Inr \<lparr>embeddings =
             [\<lparr>text' = replicate 100 120 @ [46, 46, 46], embedding = [150], tokens = None\<rparr>,
              \<lparr>text' = lit ''gift'', embedding = [4], tokens = None\<rparr>],
           count = 2, dimension = 384,
           model = lit ''sentence-transformers/all-MiniLM-L6-v2'',
           processing_time_ms = 51\<rparr>) \<and>
   map tokens
     [\<lparr>text' = replicate 100 120 @ [46, 46, 46], embedding = [150], tokens = None\<rparr>,
      \<lparr>text' = lit ''gift'', embedding = [4], tokens = None\<rparr>] = [None, None]"
proof -
  have run: "generate_embeddings (Some length_encoder) slow_loop two_texts =
     ([([replicate 150 120, lit ''gift''], True)],
      Inr \<lparr>embeddings =
             [\<lparr>text' = replicate 100 120 @ [46, 46, 46], embedding = [150], tokens = None\<rparr>,
              \<lparr>text' = lit ''gift'', embedding = [4], tokens = None\<rparr>],
           count = 2, dimension = 384,
           model = lit ''sentence-transformers/all-MiniLM-L6-v2'',
           processing_time_ms = 51\<rparr>)"
    by (simp add: generate_embeddings_def length_encoder_def two_texts_def slow_loop_def
        lit_def py_round_def round_half_even_def Let_def)
  from tokens_always_absent [OF run] run show ?thesis
    by simp
qed

section \<open>The unloaded capability\<close>

text \<open>
  C6, as stated, fails at the HTTP boundary: with no capability loaded, a POST whose
  body has no texts is rejected by the field constraints of \<open>EmbedRequest\<close> before the
  handler and its guard run, and is answered 422, not 503.
\<close>

theorem unloaded_empty_post_not_503_counterexample:
  "initial_state = None \<and>
   model_loaded (health_check initial_state) = False \<and>
   length (texts (n_texts 0)) = 0 \<and>
   post_embed initial_state slow_loop (n_texts 0) = ([], Rejected) \<and>
   http_status (snd (post_embed initial_state slow_loop (n_texts 0))) = 422"
  by (simp add: initial_state_def health_check_def post_embed_def EmbedRequest_valid_def
      n_texts_def)

text \<open>
  C6, amended. While the global is \<open>None\<close> (as it is before startup has completed and
  after shutdown), \<open>/health\<close> reports \<open>model_loaded = False\<close>, and a POST to the embed
  endpoint whose body satisfies the constraints of \<open>EmbedRequest\<close> (1 to 100 texts) is
  answered 503, by the guard of the handler, which raises 503 on every request object it
  is given. A body outside the constraints is answered 422 by the framework. In neither
  case is the capability called.
\<close>

theorem unloaded_capability_unavailable:
  "model_loaded (health_check None) = False \<and>
   status (health_check None) = lit ''unhealthy'' \<and>
   model_loaded (health_check initial_state) = False \<and>
   model_loaded (health_check (shutdown st)) = False \<and>
   model_loaded (health_check (startup m)) = True \<and>
   generate_embeddings None tm r =
     ([], Inl \<lparr>status_code = 503, detail = lit ''Model not loaded''\<rparr>) \<and>
   generate_embeddings initial_state tm r =
     ([], Inl \<lparr>status_code = 503, detail = lit ''Model not loaded''\<rparr>) \<and>
   generate_embeddings (shutdown st) tm r =
     ([], Inl \<lparr>status_code = 503, detail = lit ''Model not loaded''\<rparr>) \<and>
   (EmbedRequest_valid r \<longrightarrow>
      post_embed None tm r =
        ([], Raised \<lparr>status_code = 503, detail = lit ''Model not loaded''\<rparr>) \<and>
      post_embed initial_state tm r = post_embed None tm r \<and>
      post_embed (shutdown st) tm r = post_embed None tm r \<and>
      http_status (snd (post_embed None tm r)) = 503) \<and>
   (\<not> EmbedRequest_valid r \<longrightarrow>
      post_embed None tm r = ([], Rejected) \<and>
      http_status (snd (post_embed None tm r)) = 422) \<and>
   fst (post_embed None tm r) = []"
  by (simp add: health_check_def generate_embeddings_def initial_state_def shutdown_def
      startup_def post_embed_def)

theorem unloaded_capability_unavailable_witness:
  "EmbedRequest_valid two_texts \<and>
   \<not> EmbedRequest_valid (n_texts 0) \<and>
   shutdown (startup length_encoder) = None \<and>
   model_loaded (health_check (shutdown (startup length_encoder))) = False \<and>
   generate_embeddings (shutdown (startup length_encoder)) slow_loop two_texts =
     ([], Inl \<lparr>status_code = 503, detail = lit ''Model not loaded''\<rparr>) \<and>
   http_status (snd (post_embed (shutdown (startup length_encoder)) slow_loop two_texts)) = 503 \<and>
   fst (post_embed (shutdown (startup length_encoder)) slow_loop two_texts) = [] \<and>
   http_status (snd (post_embed None slow_loop (n_texts 0))) = 422"
proof -
  have v: "EmbedRequest_valid two_texts"
    by (simp add: EmbedRequest_valid_def two_texts_def)
  have w: "\<not> EmbedRequest_valid (n_texts 0)"
    by (simp add: EmbedRequest_valid_def n_texts_def)
  have d: "shutdown (startup length_encoder) = None"
    by (simp add: shutdown_def)
  from unloaded_capability_unavailable
    [of "startup length_encoder" length_encoder slow_loop two_texts]
    unloaded_capability_unavailable
    [of "startup length_encoder" length_encoder slow_loop "n_texts 0"] v w d
  show ?thesis
    by simp
qed

section \<open>The model-info endpoint\<close>

text \<open>
  C8, as stated, fails: \<open>get_model_info\<close> starts with the same guard on the global as the
  other handlers, so its answer depends on the service state. With no capability loaded
  it raises status 503 and returns no document.
\<close>

theorem model_info_unloaded_counterexample:
  "get_model_info None = Inl \<lparr>status_code = 503, detail = lit ''Model not loaded''\<rparr> \<and>
   get_model_info (Some length_encoder) = Inr model_info_payload \<and>
   get_model_info None \<noteq> get_model_info (Some length_encoder)"
  by (simp add: get_model_info_def)

text \<open>
  C8, amended. With a capability loaded, \<open>get_model_info\<close> returns the one literal
  document, the same whichever capability is loaded; with none loaded it raises status
  503 with detail "Model not loaded".
\<close>

theorem model_info_constant_when_loaded:
  "get_model_info (Some m) = Inr model_info_payload \<and>
   get_model_info (startup m) = get_model_info (startup m') \<and>
   get_model_info None = Inl \<lparr>status_code = 503, detail = lit ''Model not loaded''\<rparr>"
  by (simp add: get_model_info_def startup_def)

section \<open>The length limits of the embed endpoint\<close>





section \<open>The processing time\<close>

lemma round_half_even_close: "\<bar>of_int (round_half_even x) - x\<bar> \<le> 1 / 2"
proof -
  have "of_int \<lfloor>x\<rfloor> \<le> x" and "x < of_int \<lfloor>x\<rfloor> + 1"
    by linarith+
  then show ?thesis
    by (auto simp: round_half_even_def Let_def)
qed

lemma py_round_close: "\<bar>py_round x 2 - x\<bar> \<le> 1 / 200"
proof -
  have "\<bar>of_int (round_half_even (x * 100)) - x * 100\<bar> \<le> 1 / 2"
    by (rule round_half_even_close)
  then show ?thesis
    by (simp add: py_round_def abs_le_iff field_simps)
qed

text \<open>
  C7, as stated, fails: the second \<open>time.time()\<close> is read after the loop that builds the
  results, so the reported time also covers that loop. With a capability call of 50 ms
  and a loop of 1 ms the response reports 51 ms, not 50.
\<close>

theorem processing_time_includes_result_loop_counterexample:
  "generate_embeddings (Some length_encoder) slow_loop two_texts =
     ([([replicate 150 120, lit ''gift''], True)],
      Inr \<lparr>embeddings =
             [\<lparr>text' = replicate 100 120 @ [46, 46, 46], embedding = [150], tokens = None\<rparr>,
              \<lparr>text' = lit ''gift'', embedding = [4], tokens = None\<rparr>],
           count = 2, dimension = 384,
           model = lit ''sentence-transformers/all-MiniLM-L6-v2'',
           processing_time_ms = 51\<rparr>) \<and>
   py_round (encode_secs slow_loop * 1000) 2 = 50"
  by (simp add: generate_embeddings_def length_encoder_def two_texts_def slow_loop_def
      lit_def py_round_def round_half_even_def Let_def)

text \<open>
  C7, amended. For every successful embed request, \<open>processing_time_ms\<close> is the time
  elapsed between the clock reading taken after the guards, just before the capability
  call, and the reading taken once the list of results is built: the time of the
  capability call plus that of the result loop, in milliseconds, rounded to 2 decimal
  places (a multiple of 0.01 within 0.005 of the elapsed time). It does not depend on the
  time at which the handler was entered.
\<close>

theorem processing_time_covers_call_and_result_loop:
  assumes "generate_embeddings st tm r = (cs, Inr resp)"
  shows "processing_time_ms resp = py_round ((encode_secs tm + results_secs tm) * 1000) 2 \<and>
    (\<exists>k :: int. processing_time_ms resp = of_int k / 100) \<and>
    \<bar>processing_time_ms resp - (encode_secs tm + results_secs tm) * 1000\<bar> \<le> 1 / 200"
proof -
  from generate_embeddings_success [OF assms] obtain m embs
    where st: "st = Some m" and h: "1 \<le> length (texts r)" "length (texts r) \<le> 100"
      and enc: "encode m (texts r) (normalize' r) = Inr embs"
    by blast
  from generate_embeddings_returns [OF h enc, of tm] assms st
  have p: "processing_time_ms resp = py_round ((encode_secs tm + results_secs tm) * 1000) 2"
    by auto
  have k: "\<exists>k :: int. py_round ((encode_secs tm + results_secs tm) * 1000) 2 = of_int k / 100"
    by (simp add: py_round_def)
  from p k py_round_close [of "(encode_secs tm + results_secs tm) * 1000"] show ?thesis
    by simp
qed

theorem processing_time_covers_call_and_result_loop_witness:
  "generate_embeddings (Some length_encoder) slow_loop (n_texts 1) =
     ([([lit ''gift''], True)],
      Inr \<lparr>embeddings = [\<lparr>text' = lit ''gift'', embedding = [4], tokens = None\<rparr>],
           count = 1, dimension = 384,
           model = lit ''sentence-transformers/all-MiniLM-L6-v2'',
           processing_time_ms = 51\<rparr>) \<and>
   py_round ((encode_secs slow_loop + results_secs slow_loop) * 1000) 2 = 51"
proof -
  have run: "generate_embeddings (Some length_encoder) slow_loop (n_texts 1) =
     ([([lit ''gift''], True)],
      Inr \<lparr>embeddings = [\<lparr>text' = lit ''gift'', embedding = [4], tokens = None\<rparr>],
           count = 1, dimension = 384,
           model = lit ''sentence-transformers/all-MiniLM-L6-v2'',
           processing_time_ms = 51\<rparr>)"
    by (simp add: generate_embeddings_def length_encoder_def n_texts_def slow_loop_def
        lit_def py_round_def round_half_even_def Let_def)
  from processing_time_covers_call_and_result_loop [OF run] run show ?thesis
    by simp
qed

end
